theory Spec2Isabelle
  imports Complex_Main
begin

section \<open>Values, errors and loops of the notebook\<close>

text \<open>
  The notebook \<open>solver_iq-3\<close> computes with Python floats and with numpy
  \<open>complex128\<close> arrays. The model computes with exact real and complex numbers.
  A numpy division by an exact zero does not raise: it stores a value with an
  infinite or NaN component. The model keeps one token for all such values: a
  number is \<open>Some x\<close> when it is finite and \<open>None\<close> when it is not, and
  \<open>None\<close> absorbs every later operation. numpy can return a finite value from
  an infinite operand (\<open>1/inf = 0\<close>), so the theorems below conclude values
  from finite operands only.
  A division of Python scalars by a zero float raises \<open>ZeroDivisionError\<close>,
  and an index past the end of an array raises \<open>IndexError\<close>; both are values
  of \<open>py_error\<close>, and a function that can raise returns \<open>py_error + 'a\<close>.
\<close>

datatype py_error = ZeroDivisionError | IndexError

type_synonym fnum = "real option"
type_synonym cnum = "complex option"

definition lift2 :: "('a \<Rightarrow> 'b \<Rightarrow> 'c) \<Rightarrow> 'a option \<Rightarrow> 'b option \<Rightarrow> 'c option" where
  "lift2 f a b = (case a of None \<Rightarrow> None
                  | Some x \<Rightarrow> (case b of None \<Rightarrow> None | Some y \<Rightarrow> Some (f x y)))"

definition nadd :: "'a::plus option \<Rightarrow> 'a option \<Rightarrow> 'a option" where
  "nadd a b = lift2 (+) a b"

definition nsub :: "'a::minus option \<Rightarrow> 'a option \<Rightarrow> 'a option" where
  "nsub a b = lift2 (-) a b"

definition nmul :: "'a::times option \<Rightarrow> 'a option \<Rightarrow> 'a option" where
  "nmul a b = lift2 (*) a b"

definition ndiv :: "'a::field option \<Rightarrow> 'a option \<Rightarrow> 'a option" where
  \<comment> \<open>numpy's \<open>/\<close>: a zero divisor gives a non-finite quotient, never an exception\<close>
  "ndiv a b = (case a of None \<Rightarrow> None
               | Some x \<Rightarrow> (case b of None \<Rightarrow> None
                            | Some y \<Rightarrow> if y = 0 then None else Some (x / y)))"

definition np_real :: "cnum \<Rightarrow> fnum" where
  "np_real z = map_option Re z"

definition np_imag :: "cnum \<Rightarrow> fnum" where
  "np_imag z = map_option Im z"

definition to_complex :: "fnum \<Rightarrow> cnum" where
  \<comment> \<open>a float stored into a \<open>dtype=complex\<close> array\<close>
  "to_complex x = map_option complex_of_real x"

definition bnd :: "py_error + 'a \<Rightarrow> ('a \<Rightarrow> py_error + 'b) \<Rightarrow> py_error + 'b" where
  "bnd r f = (case r of Inl e \<Rightarrow> Inl e | Inr x \<Rightarrow> f x)"

definition getitem :: "'a list \<Rightarrow> nat \<Rightarrow> py_error + 'a" where
  \<comment> \<open>\<open>xs[n]\<close> for an index that comes from \<open>range\<close>, hence is not negative\<close>
  "getitem xs n = (if n < length xs then Inr (xs ! n) else Inl IndexError)"

definition setitem :: "'a list \<Rightarrow> nat \<Rightarrow> 'a \<Rightarrow> py_error + 'a list" where
  \<comment> \<open>\<open>xs[n] = v\<close>\<close>
  "setitem xs n v = (if n < length xs then Inr (xs[n := v]) else Inl IndexError)"

fun for_loop :: "nat list \<Rightarrow> (nat \<Rightarrow> 's \<Rightarrow> py_error + 's) \<Rightarrow> 's \<Rightarrow> py_error + 's" where
  \<comment> \<open>\<open>for n in ns: s = body(n, s)\<close>; the first exception ends the loop\<close>
  "for_loop [] body s = Inr s"
| "for_loop (n # ns) body s = bnd (body n s) (for_loop ns body)"

definition np_zeros :: "nat \<Rightarrow> cnum list" where
  \<comment> \<open>\<open>np.zeros(shape, dtype=complex)\<close> for a one-dimensional shape\<close>
  "np_zeros k = replicate k (Some 0)"

definition np_ones :: "nat \<Rightarrow> cnum list" where
  "np_ones k = replicate k (Some 1)"

section \<open>Dispersion relation\<close>

definition eps_k :: "real \<Rightarrow> real \<Rightarrow> real" where
  \<comment> \<open>\<open>return -2.0*(np.cos(kx) + np.cos(ky))\<close>\<close>
  "eps_k kx ky = - 2 * (cos kx + cos ky)"

section \<open>The model class\<close>

record Model =
  t :: real
  beta :: real
  U :: real
  hyb :: "cnum list"

definition Model_eps_k :: "Model \<Rightarrow> real \<Rightarrow> real \<Rightarrow> real" where
  \<comment> \<open>the method \<open>Model.eps_k\<close>; the coefficient is the literal \<open>-2.0\<close>\<close>
  "Model_eps_k m kx ky = - 2 * (cos kx + cos ky)"

section \<open>Matsubara frequencies\<close>

definition iwn_val :: "real \<Rightarrow> nat \<Rightarrow> complex" where
  "iwn_val b n = \<i> * complex_of_real (2 * real n + 1) * complex_of_real pi / complex_of_real b"

definition iwn :: "real \<Rightarrow> nat \<Rightarrow> py_error + complex" where
  \<comment> \<open>\<open>iwn = 1.0j * (2.0 * n + 1.0) * np.pi / self.model.beta\<close>: Python scalars,
      so a zero \<open>beta\<close> raises\<close>
  "iwn b n = (if b = 0 then Inl ZeroDivisionError else Inr (iwn_val b n))"

section \<open>The impurity solver\<close>

definition solve_body :: "Model \<Rightarrow> cnum list \<Rightarrow> nat \<Rightarrow> cnum list \<Rightarrow> py_error + cnum list" where
  \<comment> \<open>\<open>green_impurity[n] = 1.0/(iwn - self.model.hyb[n] - self_energy[n])\<close>\<close>
  "solve_body m self_energy n green_impurity =
     bnd (iwn (beta m) n) (\<lambda>z.
     bnd (getitem (hyb m) n) (\<lambda>h.
     bnd (getitem self_energy n) (\<lambda>s.
     setitem green_impurity n (ndiv (Some 1) (nsub (nsub (Some z) h) s)))))"

definition solve :: "Model \<Rightarrow> py_error + cnum list" where
  "solve m =
     (let green_impurity = np_zeros (length (hyb m));
          self_energy = map (nmul (Some (complex_of_real (U m / 2))))
                            (np_ones (length green_impurity))
      in for_loop [0..<length green_impurity] (solve_body m self_energy) green_impurity)"

section \<open>The self-consistency step\<close>

text \<open>
  \<open>scipy.integrate.dblquad\<close> is not part of the notebook. It is a parameter of
  the model: \<open>dblquad func a b gfun hfun\<close> stands for the pair (value, error
  estimate) that the library returns for the integral of \<open>func(y, x)\<close> over
  \<open>x\<close> from \<open>a\<close> to \<open>b\<close> and \<open>y\<close> from \<open>gfun(x)\<close> to \<open>hfun(x)\<close>.
\<close>

type_synonym integrand = "real \<Rightarrow> real \<Rightarrow> fnum"
type_synonym quadrature =
  "integrand \<Rightarrow> real \<Rightarrow> real \<Rightarrow> (real \<Rightarrow> real) \<Rightarrow> (real \<Rightarrow> real) \<Rightarrow> fnum \<times> fnum"

text \<open>
  The two integrands read \<open>self.model.beta\<close> and \<open>self_energy[n]\<close>. Both reads
  raise independently of \<open>kx\<close> and \<open>ky\<close>; the loop that builds the integrands
  (\<open>sc_green_body\<close> below) raises for them, so that the integrands themselves
  are plain functions of the momenta.
\<close>

definition green_lattice_scalar :: "Model \<Rightarrow> real \<Rightarrow> real \<Rightarrow> cnum list \<Rightarrow> nat \<Rightarrow> cnum" where
  \<comment> \<open>\<open>1.0/(iwn - self.model.eps_k(kx, ky) - self_energy[n])\<close>\<close>
  "green_lattice_scalar m kx ky self_energy n =
     ndiv (Some 1)
       (nsub (nsub (Some (iwn_val (beta m) n)) (Some (complex_of_real (Model_eps_k m kx ky))))
             (self_energy ! n))"

definition green_lattice_scalar_real :: "Model \<Rightarrow> real \<Rightarrow> real \<Rightarrow> cnum list \<Rightarrow> nat \<Rightarrow> fnum" where
  "green_lattice_scalar_real m kx ky self_energy n =
     np_real (green_lattice_scalar m kx ky self_energy n)"

definition green_lattice_scalar_imag :: "Model \<Rightarrow> real \<Rightarrow> real \<Rightarrow> cnum list \<Rightarrow> nat \<Rightarrow> fnum" where
  "green_lattice_scalar_imag m kx ky self_energy n =
     np_imag (green_lattice_scalar m kx ky self_energy n)"

definition sc_self_energy_body :: "Model \<Rightarrow> cnum list \<Rightarrow> nat \<Rightarrow> cnum list \<Rightarrow> py_error + cnum list" where
  \<comment> \<open>\<open>self_energy[n] = iwn - self.model.hyb[n] - 1.0/self.green_impurity[n]\<close>\<close>
  "sc_self_energy_body m green_impurity n self_energy =
     bnd (iwn (beta m) n) (\<lambda>z.
     bnd (getitem (hyb m) n) (\<lambda>h.
     bnd (getitem green_impurity n) (\<lambda>g.
     setitem self_energy n (nsub (nsub (Some z) h) (ndiv (Some 1) g)))))"

definition sc_self_energy :: "Model \<Rightarrow> cnum list \<Rightarrow> py_error + cnum list" where
  \<comment> \<open>step 0 of \<open>run_selfconsistency\<close>: the first loop\<close>
  "sc_self_energy m green_impurity =
     for_loop [0..<length green_impurity] (sc_self_energy_body m green_impurity)
       (np_zeros (length green_impurity))"

definition bz_integral :: "quadrature \<Rightarrow> integrand \<Rightarrow> fnum" where
  \<comment> \<open>\<open>dblquad(f, kx_limit_low, kx_limit_high, ky_limit_low, ky_limit_high)[0]\<close>\<close>
  "bz_integral dblquad f =
     (let kx_limit_low = - pi; kx_limit_high = pi;
          ky_limit_low = (\<lambda>kx::real. - pi); ky_limit_high = (\<lambda>kx::real. pi)
      in fst (dblquad f kx_limit_low kx_limit_high ky_limit_low ky_limit_high))"

definition sc_green_body ::
  "quadrature \<Rightarrow> Model \<Rightarrow> cnum list \<Rightarrow> nat \<Rightarrow> cnum list \<Rightarrow> py_error + cnum list" where
  \<comment> \<open>the three statements \<open>green_impurity_new[n] = ...\<close>, \<open>+= 1.0j*...\<close>,
      \<open>/= (2.0*np.pi)**2.0\<close>\<close>
  "sc_green_body dblquad m self_energy n green_impurity_new =
     bnd (iwn (beta m) n) (\<lambda>_.
     bnd (getitem self_energy n) (\<lambda>_.
     bnd (setitem green_impurity_new n
            (to_complex (bz_integral dblquad
               (\<lambda>kx ky. green_lattice_scalar_real m kx ky self_energy n)))) (\<lambda>g1.
     bnd (getitem g1 n) (\<lambda>v1.
     bnd (setitem g1 n
            (nadd v1 (nmul (Some \<i>) (to_complex (bz_integral dblquad
               (\<lambda>kx ky. green_lattice_scalar_imag m kx ky self_energy n)))))) (\<lambda>g2.
     bnd (getitem g2 n) (\<lambda>v2.
     setitem g2 n (ndiv v2 (Some (complex_of_real ((2 * pi) powr 2))))))))))"

definition sc_green_impurity_new ::
  "quadrature \<Rightarrow> Model \<Rightarrow> cnum list \<Rightarrow> cnum list \<Rightarrow> py_error + cnum list" where
  \<comment> \<open>step 1 of \<open>run_selfconsistency\<close>: the second loop\<close>
  "sc_green_impurity_new dblquad m green_impurity self_energy =
     (let green_impurity_new = np_zeros (length green_impurity)
      in for_loop [0..<length green_impurity_new] (sc_green_body dblquad m self_energy)
           green_impurity_new)"

definition sc_hyb_body :: "Model \<Rightarrow> cnum list \<Rightarrow> cnum list \<Rightarrow> nat \<Rightarrow> cnum list \<Rightarrow> py_error + cnum list" where
  \<comment> \<open>\<open>hyb_new[n] = iwn - 1.0/green_impurity_new[n] - self_energy[n]\<close>\<close>
  "sc_hyb_body m green_impurity_new self_energy n hyb_new =
     bnd (iwn (beta m) n) (\<lambda>z.
     bnd (getitem green_impurity_new n) (\<lambda>g.
     bnd (getitem self_energy n) (\<lambda>s.
     setitem hyb_new n (nsub (nsub (Some z) (ndiv (Some 1) g)) s))))"

definition sc_hyb_new :: "Model \<Rightarrow> cnum list \<Rightarrow> cnum list \<Rightarrow> cnum list \<Rightarrow> py_error + cnum list" where
  \<comment> \<open>step 2 of \<open>run_selfconsistency\<close>: the third loop; the shape of \<open>hyb_new\<close>
      is the shape of \<open>self.green_impurity\<close>\<close>
  "sc_hyb_new m green_impurity green_impurity_new self_energy =
     (let hyb_new = np_zeros (length green_impurity)
      in for_loop [0..<length hyb_new] (sc_hyb_body m green_impurity_new self_energy) hyb_new)"

definition run_selfconsistency :: "quadrature \<Rightarrow> Model \<Rightarrow> cnum list \<Rightarrow> py_error + cnum list" where
  "run_selfconsistency dblquad m green_impurity =
     bnd (sc_self_energy m green_impurity) (\<lambda>self_energy.
     bnd (sc_green_impurity_new dblquad m green_impurity self_energy) (\<lambda>green_impurity_new.
     sc_hyb_new m green_impurity green_impurity_new self_energy))"

section \<open>The driver\<close>

definition py_truediv :: "real \<Rightarrow> real \<Rightarrow> py_error + real" where
  \<comment> \<open>\<open>/\<close> on Python floats\<close>
  "py_truediv a b = (if b = 0 then Inl ZeroDivisionError else Inr (a / b))"

fun frequencies_list :: "real \<Rightarrow> nat list \<Rightarrow> py_error + real list" where
  \<comment> \<open>\<open>[(2.0*n + 1)*np.pi/beta for n in ...]\<close>\<close>
  "frequencies_list b [] = Inr []"
| "frequencies_list b (n # ns) =
     bnd (py_truediv ((2 * real n + 1) * pi) b) (\<lambda>x.
     bnd (frequencies_list b ns) (\<lambda>xs. Inr (x # xs)))"

definition main_body ::
  "quadrature \<Rightarrow> real \<Rightarrow> real \<Rightarrow> real \<Rightarrow> nat \<Rightarrow> cnum list \<Rightarrow> py_error + cnum list" where
  \<comment> \<open>one pass of the loop of \<open>main\<close>; the loop variable \<open>ii\<close> is not read\<close>
  "main_body dblquad t0 beta0 U0 ii hyb0 =
     (let model = \<lparr>t = t0, beta = beta0, U = U0, hyb = hyb0\<rparr>
      in bnd (solve model) (\<lambda>green_impurity.
         run_selfconsistency dblquad model green_impurity))"

definition main_with ::
  "quadrature \<Rightarrow> nat \<Rightarrow> real \<Rightarrow> real \<Rightarrow> real \<Rightarrow> nat \<Rightarrow> py_error + (real list \<times> cnum list)" where
  \<comment> \<open>the body of \<open>main\<close>, with its five local constants as arguments\<close>
  "main_with dblquad n_freq t0 beta0 U0 iter_max =
     bnd (for_loop [0..<iter_max] (main_body dblquad t0 beta0 U0) (np_zeros n_freq)) (\<lambda>hyb_final.
     bnd (frequencies_list beta0 [0..<n_freq]) (\<lambda>frequencies.
     Inr (frequencies, hyb_final)))"

definition main :: "quadrature \<Rightarrow> py_error + (real list \<times> cnum list)" where
  \<comment> \<open>\<open>n_freq = 200, t = -1.0, beta = 10.0, U = 4.0, iter_max = 20\<close>\<close>
  "main dblquad = main_with dblquad 200 (- 1) 10 4 20"

section \<open>The first moment of the hybridization\<close>

definition get_hyb_fm :: "quadrature \<Rightarrow> fnum" where
  \<comment> \<open>\<open>return 1.0/(2.0*np.pi)**2.0*(int_eps_k_squared - int_eps_k)\<close>\<close>
  "get_hyb_fm dblquad =
     (let int_eps_k = bz_integral dblquad (\<lambda>kx ky. Some (eps_k kx ky));
          eps_k_squared = (\<lambda>kx ky. eps_k kx ky * eps_k kx ky);
          int_eps_k_squared = bz_integral dblquad (\<lambda>kx ky. Some (eps_k_squared kx ky))
      in nmul (Some (1 / (2 * pi) powr 2)) (nsub int_eps_k_squared int_eps_k))"

section \<open>Closed forms of the loops\<close>

text \<open>
  Each loop of the notebook fills one array, entry by entry. The entry that a
  loop stores at index \<open>n\<close> is named here, so that the lemmas below can say
  what a loop returns as a whole.
\<close>

definition G_imp_entry :: "Model \<Rightarrow> nat \<Rightarrow> cnum" where
  "G_imp_entry m n =
     ndiv (Some 1) (nsub (nsub (Some (iwn_val (beta m) n)) (hyb m ! n))
                         (Some (complex_of_real (U m / 2))))"

definition self_energy_entry :: "Model \<Rightarrow> cnum list \<Rightarrow> nat \<Rightarrow> cnum" where
  "self_energy_entry m green_impurity n =
     nsub (nsub (Some (iwn_val (beta m) n)) (hyb m ! n)) (ndiv (Some 1) (green_impurity ! n))"

definition green_new_entry :: "quadrature \<Rightarrow> Model \<Rightarrow> cnum list \<Rightarrow> nat \<Rightarrow> cnum" where
  "green_new_entry dblquad m self_energy n =
     ndiv (nadd (to_complex (bz_integral dblquad
                   (\<lambda>kx ky. green_lattice_scalar_real m kx ky self_energy n)))
                (nmul (Some \<i>) (to_complex (bz_integral dblquad
                   (\<lambda>kx ky. green_lattice_scalar_imag m kx ky self_energy n)))))
          (Some (complex_of_real ((2 * pi) powr 2)))"

definition hyb_new_entry :: "Model \<Rightarrow> cnum list \<Rightarrow> cnum list \<Rightarrow> nat \<Rightarrow> cnum" where
  "hyb_new_entry m green_impurity_new self_energy n =
     nsub (nsub (Some (iwn_val (beta m) n)) (ndiv (Some 1) (green_impurity_new ! n)))
          (self_energy ! n)"

definition sc_closed :: "quadrature \<Rightarrow> Model \<Rightarrow> cnum list \<Rightarrow> cnum list" where
  "sc_closed dblquad m green_impurity =
     (let N = length green_impurity;
          self_energy = map (self_energy_entry m green_impurity) [0..<N];
          green_impurity_new = map (green_new_entry dblquad m self_energy) [0..<N]
      in map (hyb_new_entry m green_impurity_new self_energy) [0..<N])"

definition dmft_step :: "quadrature \<Rightarrow> real \<Rightarrow> real \<Rightarrow> real \<Rightarrow> cnum list \<Rightarrow> cnum list" where
  "dmft_step dblquad t0 beta0 U0 hyb0 =
     (let model = \<lparr>t = t0, beta = beta0, U = U0, hyb = hyb0\<rparr>
      in sc_closed dblquad model (map (G_imp_entry model) [0..<length hyb0]))"

section \<open>Exact integration\<close>

text \<open>
  What it means for the quadrature to be exact. A function of one variable that
  has an antiderivative on the whole line has the difference of the
  antiderivative at the two limits as its integral; a double integral is the
  integral of the inner integrals. A quadrature is exact when it returns this
  value for every finite integrand that has one.
\<close>

definition antiderivative :: "(real \<Rightarrow> real) \<Rightarrow> (real \<Rightarrow> real) \<Rightarrow> bool" where
  "antiderivative F f \<longleftrightarrow> (\<forall>x. (F has_real_derivative f x) (at x))"

definition integral_is :: "(real \<Rightarrow> real) \<Rightarrow> real \<Rightarrow> real \<Rightarrow> real \<Rightarrow> bool" where
  "integral_is f a b v \<longleftrightarrow> (\<exists>F. antiderivative F f \<and> v = F b - F a)"

definition double_integral_is ::
  "(real \<Rightarrow> real \<Rightarrow> real) \<Rightarrow> real \<Rightarrow> real \<Rightarrow> (real \<Rightarrow> real) \<Rightarrow> (real \<Rightarrow> real) \<Rightarrow> real \<Rightarrow> bool" where
  "double_integral_is f a b g h v \<longleftrightarrow>
     (\<exists>inner. (\<forall>x. integral_is (\<lambda>y. f y x) (g x) (h x) (inner x)) \<and> integral_is inner a b v)"

definition exact_quadrature :: "quadrature \<Rightarrow> bool" where
  \<comment> \<open>Modelled from the spec: the integrator's contract (the integral of a real
      function of two variables over a rectangle), read as exact integration\<close>
  "exact_quadrature dblquad \<longleftrightarrow>
     (\<forall>f a b g h v. double_integral_is f a b g h v
        \<longrightarrow> fst (dblquad (\<lambda>y x. Some (f y x)) a b g h) = Some v)"

definition newton_quadrature :: quadrature where
  \<comment> \<open>the quadrature that returns the exact value wherever there is one\<close>
  "newton_quadrature f a b g h =
     (if (\<forall>y x. f y x \<noteq> None) \<and> (\<exists>v. double_integral_is (\<lambda>y x. the (f y x)) a b g h v)
      then (Some (THE v. double_integral_is (\<lambda>y x. the (f y x)) a b g h v), Some 0)
      else (None, None))"

definition midpoint_rule :: quadrature where
  \<comment> \<open>the one-point rule: the area times the integrand at the centre\<close>
  "midpoint_rule f a b g h =
     (let x = (a + b) / 2; y = (g x + h x) / 2
      in (nmul (Some ((b - a) * (h x - g x))) (f y x), Some 0))"

definition spec_first_moment :: "quadrature \<Rightarrow> fnum" where
  \<comment> \<open>the moment formula as the specification writes it:
      \<open>(1/(2 pi)^2) [int eps^2 - (int eps)^2]\<close>\<close>
  "spec_first_moment dblquad =
     (let int_eps = bz_integral dblquad (\<lambda>kx ky. Some (eps_k kx ky));
          int_eps_sq = bz_integral dblquad (\<lambda>kx ky. Some ((eps_k kx ky)\<^sup>2))
      in nmul (Some (1 / (2 * pi)\<^sup>2)) (nsub int_eps_sq (nmul int_eps int_eps)))"

section \<open>Errors and loops\<close>

lemma bnd_Inr [simp]: "bnd (Inr x) f = f x"
  by (simp add: bnd_def)

lemma bnd_Inl [simp]: "bnd (Inl e) f = Inl e"
  by (simp add: bnd_def)

lemma length_np_zeros [simp]: "length (np_zeros k) = k"
  by (simp add: np_zeros_def)

lemma length_np_ones [simp]: "length (np_ones k) = k"
  by (simp add: np_ones_def)

lemma for_loop_append: "for_loop (ns @ [n]) body s = bnd (for_loop ns body s) (body n)"
proof (induction ns arbitrary: s)
  case Nil
  show ?case by (cases "body n s") simp_all
next
  case (Cons a ns)
  show ?case by (cases "body a s") (simp_all add: Cons.IH)
qed

text \<open>
  A loop over \<open>range(N)\<close> whose pass \<open>n\<close> stores \<open>f n\<close> at index \<open>n\<close> of an
  array of length \<open>N\<close>: after \<open>K\<close> passes the first \<open>K\<close> entries are set.
\<close>

lemma for_loop_prefix:
  assumes body: "\<And>n s. n < N \<Longrightarrow> length s = N \<Longrightarrow> body n s = Inr (s[n := f n])"
    and len: "length s0 = N"
  shows "K \<le> N \<Longrightarrow>
    for_loop [0..<K] body s0 = Inr (map (\<lambda>i. if i < K then f i else s0 ! i) [0..<N])"
proof (induction K)
  case 0
  have "map (\<lambda>i. s0 ! i) [0..<N] = s0"
    unfolding len [symmetric] by (rule map_nth)
  then show ?case by simp
next
  case (Suc K)
  let ?s = "map (\<lambda>i. if i < K then f i else s0 ! i) [0..<N]"
  have prev: "for_loop [0..<K] body s0 = Inr ?s"
    using Suc by simp
  have "body K ?s = Inr (?s[K := f K])"
    using Suc.prems by (intro body) simp_all
  moreover have "?s[K := f K] = map (\<lambda>i. if i < Suc K then f i else s0 ! i) [0..<N]"
    by (rule nth_equalityI) (auto simp: nth_list_update less_Suc_eq)
  ultimately show ?case
    by (simp add: for_loop_append prev)
qed

lemma for_loop_setitem:
  assumes "\<And>n s. n < N \<Longrightarrow> length s = N \<Longrightarrow> body n s = Inr (s[n := f n])"
    and "length s0 = N"
  shows "for_loop [0..<N] body s0 = Inr (map f [0..<N])"
  using for_loop_prefix [OF assms, of N] by simp

section \<open>Matsubara frequencies\<close>

lemma Im_iwn_val: "Im (iwn_val b n) = (2 * real n + 1) * pi / b"
  by (simp add: iwn_val_def Im_divide_of_real)

lemma Re_iwn_val: "Re (iwn_val b n) = 0"
  by (simp add: iwn_val_def Re_divide_of_real)

lemma iwn_val_nonzero: "b \<noteq> 0 \<Longrightarrow> iwn_val b n \<noteq> 0"
proof
  assume b: "b \<noteq> 0" and z: "iwn_val b n = 0"
  have "(2 * real n + 1) * pi / b = 0"
    using Im_iwn_val [of b n] z by simp
  moreover have "2 * real n + 1 \<noteq> 0"
    using of_nat_0_le_iff [of n, where 'a = real] by linarith
  ultimately show False
    using b by simp
qed

lemma iwn_val_spec: "iwn_val b n = \<i> * complex_of_real ((2 * real n + 1) * pi / b)"
  by (simp add: iwn_val_def)

section \<open>The impurity solver returns the Hartree Green function\<close>

lemma solve_body_closed:
  assumes "beta m \<noteq> 0" and "n < length (hyb m)" and "length s = length (hyb m)"
  shows "solve_body m (map (nmul (Some (complex_of_real (U m / 2)))) (np_ones (length (hyb m)))) n s
         = Inr (s[n := G_imp_entry m n])"
  using assms
  by (simp add: solve_body_def iwn_def getitem_def setitem_def np_ones_def G_imp_entry_def
      nmul_def lift2_def)

lemma solve_closed:
  assumes "beta m \<noteq> 0"
  shows "solve m = Inr (map (G_imp_entry m) [0..<length (hyb m)])"
proof -
  have "for_loop [0..<length (hyb m)]
          (solve_body m (map (nmul (Some (complex_of_real (U m / 2)))) (np_ones (length (hyb m)))))
          (np_zeros (length (hyb m)))
        = Inr (map (G_imp_entry m) [0..<length (hyb m)])"
    by (rule for_loop_setitem) (rule solve_body_closed [OF assms], simp_all)
  then show ?thesis
    by (simp add: solve_def)
qed

text \<open>
  Claim C1. For a model with \<open>beta > 0\<close> and a hybridization of length \<open>N\<close>,
  \<open>solve\<close> returns an array of length \<open>N\<close> whose entry \<open>n\<close>, for every
  \<open>n < N\<close>, is the quotient \<open>1 / (iwn - hyb[n] - U/2)\<close> with
  \<open>iwn = i (2n+1) pi / beta\<close>: the self-energy is \<open>U/2\<close> at every index. Where the
  hybridization entry is finite and the denominator is not zero, the entry is that
  complex number.
\<close>

theorem solve_entries:
  assumes "0 < beta m" and "n < length (hyb m)"
  shows "\<exists>G. solve m = Inr G \<and> length G = length (hyb m)
           \<and> G ! n = ndiv (Some 1) (nsub (nsub (Some (iwn_val (beta m) n)) (hyb m ! n))
                                         (Some (complex_of_real (U m / 2))))
           \<and> iwn_val (beta m) n = \<i> * complex_of_real ((2 * real n + 1) * pi / beta m)
           \<and> (\<forall>d. hyb m ! n = Some d \<and> iwn_val (beta m) n - d - complex_of_real (U m / 2) \<noteq> 0
                 \<longrightarrow> G ! n = Some (1 / (iwn_val (beta m) n - d - complex_of_real (U m / 2))))"
proof -
  have "solve m = Inr (map (G_imp_entry m) [0..<length (hyb m)])"
    using assms(1) by (intro solve_closed) simp
  moreover have "map (G_imp_entry m) [0..<length (hyb m)] ! n = G_imp_entry m n"
    using assms(2) by simp
  moreover have "\<forall>d. hyb m ! n = Some d \<and> iwn_val (beta m) n - d - complex_of_real (U m / 2) \<noteq> 0
                 \<longrightarrow> G_imp_entry m n = Some (1 / (iwn_val (beta m) n - d - complex_of_real (U m / 2)))"
    by (simp add: G_imp_entry_def ndiv_def nsub_def lift2_def)
  ultimately show ?thesis
    by (simp add: G_imp_entry_def iwn_val_spec)
qed

theorem solve_entries_witness:
  "\<exists>G. solve \<lparr>t = - 1, beta = 10, U = 4, hyb = [Some 0, Some 0]\<rparr> = Inr G \<and> length G = 2
       \<and> G ! 1 = Some (1 / (iwn_val 10 1 - 0 - complex_of_real (4 / 2)))"
proof -
  have "Im (iwn_val 10 1 - 0 - complex_of_real (4 / 2)) \<noteq> 0"
    by (simp add: Im_iwn_val)
  then have "iwn_val 10 1 - 0 - complex_of_real (4 / 2) \<noteq> 0"
    by (metis zero_complex.simps(2))
  then show ?thesis
    using solve_entries [of "\<lparr>t = - 1, beta = 10, U = 4, hyb = [Some 0, Some 0]\<rparr>" 1]
    by auto
qed

text \<open>
  Claim C7. With a zero hybridization of length \<open>N \<ge> 1\<close>, \<open>U = 0\<close> and
  \<open>beta > 0\<close>, \<open>solve\<close> returns \<open>1 / (i (2n+1) pi / beta)\<close> at every index; for
  \<open>N = 1\<close> and \<open>beta = 10\<close> the single entry is \<open>-10 i / pi\<close>, whose real part is
  zero and whose imaginary part is negative.
\<close>

theorem solve_free:
  assumes "1 \<le> N" and "0 < b"
  shows "solve \<lparr>t = t0, beta = b, U = 0, hyb = np_zeros N\<rparr>
           = Inr (map (\<lambda>n. Some (1 / (\<i> * complex_of_real ((2 * real n + 1) * pi / b)))) [0..<N])
         \<and> solve \<lparr>t = t0, beta = 10, U = 0, hyb = [Some 0]\<rparr> = Inr [Some (- 10 * \<i> / complex_of_real pi)]
         \<and> Re (- 10 * \<i> / complex_of_real pi) = 0
         \<and> Im (- 10 * \<i> / complex_of_real pi) < 0"
proof -
  have entry: "G_imp_entry \<lparr>t = t0, beta = c, U = 0, hyb = np_zeros K\<rparr> n
                 = Some (1 / (\<i> * complex_of_real ((2 * real n + 1) * pi / c)))"
    if "c \<noteq> 0" and "n < K" for c K n
    using that iwn_val_nonzero [of c n]
    by (simp add: G_imp_entry_def ndiv_def nsub_def lift2_def np_zeros_def iwn_val_spec)
  have "solve \<lparr>t = t0, beta = b, U = 0, hyb = np_zeros N\<rparr>
          = Inr (map (G_imp_entry \<lparr>t = t0, beta = b, U = 0, hyb = np_zeros N\<rparr>) [0..<N])"
    using assms(2) solve_closed [of "\<lparr>t = t0, beta = b, U = 0, hyb = np_zeros N\<rparr>"] by simp
  moreover have "map (G_imp_entry \<lparr>t = t0, beta = b, U = 0, hyb = np_zeros N\<rparr>) [0..<N]
          = map (\<lambda>n. Some (1 / (\<i> * complex_of_real ((2 * real n + 1) * pi / b)))) [0..<N]"
    using assms(2) by (intro map_cong refl entry) simp_all
  moreover have "solve \<lparr>t = t0, beta = 10, U = 0, hyb = [Some 0]\<rparr>
          = Inr [G_imp_entry \<lparr>t = t0, beta = 10, U = 0, hyb = np_zeros 1\<rparr> 0]"
    using solve_closed [of "\<lparr>t = t0, beta = 10, U = 0, hyb = np_zeros 1\<rparr>"]
    by (simp add: np_zeros_def)
  moreover have "G_imp_entry \<lparr>t = t0, beta = 10, U = 0, hyb = np_zeros 1\<rparr> 0
          = Some (- 10 * \<i> / complex_of_real pi)"
    using entry [of 10 0 1] by (simp add: field_simps)
  ultimately show ?thesis
    by simp
qed

theorem solve_free_witness:
  "solve \<lparr>t = - 1, beta = 2, U = 0, hyb = np_zeros 3\<rparr>
     = Inr (map (\<lambda>n. Some (1 / (\<i> * complex_of_real ((2 * real n + 1) * pi / 2)))) [0..<3])"
  using solve_free [of 3 2 "- 1"] by simp

section \<open>The loops of the self-consistency step and of the driver\<close>

lemma sc_self_energy_closed:
  assumes "beta m \<noteq> 0" and "length G \<le> length (hyb m)"
  shows "sc_self_energy m G = Inr (map (self_energy_entry m G) [0..<length G])"
  unfolding sc_self_energy_def
proof (rule for_loop_setitem)
  fix n and s :: "cnum list"
  assume "n < length G" and "length s = length G"
  then show "sc_self_energy_body m G n s = Inr (s[n := self_energy_entry m G n])"
    using assms
    by (simp add: sc_self_energy_body_def iwn_def getitem_def setitem_def self_energy_entry_def)
qed simp

lemma sc_green_body_closed:
  assumes "beta m \<noteq> 0" and "n < length se" and "n < length s"
  shows "sc_green_body Q m se n s = Inr (s[n := green_new_entry Q m se n])"
  using assms
  by (simp add: sc_green_body_def iwn_def getitem_def setitem_def green_new_entry_def)

lemma sc_green_impurity_new_closed:
  assumes "beta m \<noteq> 0" and "length G \<le> length se"
  shows "sc_green_impurity_new Q m G se = Inr (map (green_new_entry Q m se) [0..<length G])"
proof -
  have "for_loop [0..<length G] (sc_green_body Q m se) (np_zeros (length G))
          = Inr (map (green_new_entry Q m se) [0..<length G])"
    using assms by (intro for_loop_setitem sc_green_body_closed) simp_all
  then show ?thesis
    by (simp add: sc_green_impurity_new_def)
qed

lemma sc_hyb_new_closed:
  assumes "beta m \<noteq> 0" and "length G \<le> length Gnew" and "length G \<le> length se"
  shows "sc_hyb_new m G Gnew se = Inr (map (hyb_new_entry m Gnew se) [0..<length G])"
proof -
  have "for_loop [0..<length G] (sc_hyb_body m Gnew se) (np_zeros (length G))
          = Inr (map (hyb_new_entry m Gnew se) [0..<length G])"
  proof (rule for_loop_setitem)
    fix n and s :: "cnum list"
    assume "n < length G" and "length s = length G"
    then show "sc_hyb_body m Gnew se n s = Inr (s[n := hyb_new_entry m Gnew se n])"
      using assms
      by (simp add: sc_hyb_body_def iwn_def getitem_def setitem_def hyb_new_entry_def)
  qed simp
  then show ?thesis
    by (simp add: sc_hyb_new_def)
qed

lemma run_selfconsistency_closed:
  assumes "beta m \<noteq> 0" and "length G \<le> length (hyb m)"
  shows "run_selfconsistency Q m G = Inr (sc_closed Q m G)"
  using assms
  by (simp add: run_selfconsistency_def sc_closed_def Let_def sc_self_energy_closed
      sc_green_impurity_new_closed sc_hyb_new_closed)

lemma length_sc_closed [simp]: "length (sc_closed Q m G) = length G"
  by (simp add: sc_closed_def Let_def)

lemma length_dmft_step [simp]: "length (dmft_step Q t0 b u h) = length h"
  by (simp add: dmft_step_def Let_def)

lemma main_body_closed:
  assumes "b \<noteq> 0"
  shows "main_body Q t0 b u ii h = Inr (dmft_step Q t0 b u h)"
  using assms
  by (simp add: main_body_def dmft_step_def Let_def solve_closed run_selfconsistency_closed)

lemma for_loop_funpow:
  assumes "\<And>n s. body n s = Inr (g s)"
  shows "for_loop ns body s = Inr ((g ^^ length ns) s)"
  by (induction ns arbitrary: s) (simp_all add: assms funpow_swap1)

lemma main_loop_closed:
  assumes "b \<noteq> 0"
  shows "for_loop [0..<k] (main_body Q t0 b u) h = Inr ((dmft_step Q t0 b u ^^ k) h)"
  using for_loop_funpow [of "main_body Q t0 b u" "dmft_step Q t0 b u" "[0..<k]" h]
  by (simp add: main_body_closed assms)

lemma length_funpow_dmft_step [simp]: "length ((dmft_step Q t0 b u ^^ k) h) = length h"
  by (induction k) simp_all

lemma frequencies_list_closed:
  assumes "b \<noteq> 0"
  shows "frequencies_list b ns = Inr (map (\<lambda>n. (2 * real n + 1) * pi / b) ns)"
  by (induction ns) (simp_all add: py_truediv_def assms)

lemma main_with_closed:
  assumes "b \<noteq> 0"
  shows "main_with Q N t0 b u k
         = Inr (map (\<lambda>n. (2 * real n + 1) * pi / b) [0..<N], (dmft_step Q t0 b u ^^ k) (np_zeros N))"
  by (simp add: main_with_def main_loop_closed frequencies_list_closed assms)


text \<open>The exception of the model is live: a zero \<open>beta\<close> makes \<open>solve\<close> raise.\<close>

lemma solve_beta_zero:
  assumes "beta m = 0" and "hyb m \<noteq> []"
  shows "solve m = Inl ZeroDivisionError"
proof -
  obtain k where k: "length (hyb m) = Suc k"
    using assms(2) by (cases "hyb m") simp_all
  show ?thesis
    by (simp add: solve_def k upt_conv_Cons solve_body_def iwn_def assms(1) del: upt_Suc)
qed

section \<open>Self-energy extraction and hybridization update\<close>

lemma sc_round_trip_entries:
  assumes "hyb m = map Some ds" and "length gs = length ds" and "\<forall>g\<in>set gs. g \<noteq> 0"
    and "n < length ds"
  shows "self_energy_entry m (map Some gs) n = Some (iwn_val (beta m) n - ds ! n - 1 / gs ! n)"
    and "hyb_new_entry m (map Some gs) (map (self_energy_entry m (map Some gs)) [0..<length ds]) n
         = Some (ds ! n)"
proof -
  have g: "gs ! n \<noteq> 0"
    using assms by simp
  show se: "self_energy_entry m (map Some gs) n = Some (iwn_val (beta m) n - ds ! n - 1 / gs ! n)"
    using assms g by (simp add: self_energy_entry_def nsub_def ndiv_def lift2_def)
  show "hyb_new_entry m (map Some gs) (map (self_energy_entry m (map Some gs)) [0..<length ds]) n
         = Some (ds ! n)"
    using assms g by (simp add: hyb_new_entry_def se nsub_def ndiv_def lift2_def)
qed

text \<open>
  Claim C2. For finite hybridization entries \<open>ds\<close> and nonzero finite Green
  function entries \<open>gs\<close>, the first loop of \<open>run_selfconsistency\<close> returns
  \<open>iwn - ds[n] - 1/gs[n]\<close> at every index, and the third loop, given the same
  Green function in the place of the lattice average, returns the hybridization
  unchanged.
\<close>

theorem sc_round_trip:
  assumes "beta m \<noteq> 0" and "hyb m = map Some ds" and "length gs = length ds"
    and "\<forall>g\<in>set gs. g \<noteq> 0"
  shows "\<exists>se. sc_self_energy m (map Some gs) = Inr se
           \<and> se = map (\<lambda>n. Some (iwn_val (beta m) n - ds ! n - 1 / gs ! n)) [0..<length ds]
           \<and> sc_hyb_new m (map Some gs) (map Some gs) se = Inr (map Some ds)"
proof -
  let ?G = "map Some gs"
  let ?se = "map (self_energy_entry m ?G) [0..<length ds]"
  have a: "sc_self_energy m ?G = Inr ?se"
    using assms sc_self_energy_closed [of m ?G] by simp
  have b: "?se = map (\<lambda>n. Some (iwn_val (beta m) n - ds ! n - 1 / gs ! n)) [0..<length ds]"
    using assms by (intro map_cong refl sc_round_trip_entries(1)) simp_all
  have "sc_hyb_new m ?G ?G ?se = Inr (map (hyb_new_entry m ?G ?se) [0..<length ds])"
    using assms sc_hyb_new_closed [of m ?G ?G ?se] by simp
  moreover have "map (hyb_new_entry m ?G ?se) [0..<length ds] = map Some ds"
    using assms by (intro nth_equalityI) (simp_all add: sc_round_trip_entries(2))
  ultimately have c: "sc_hyb_new m ?G ?G ?se = Inr (map Some ds)"
    by simp
  from a b c show ?thesis
    by (intro exI [of _ ?se] conjI)
qed

theorem sc_round_trip_witness:
  "\<exists>se. sc_self_energy \<lparr>t = - 1, beta = 10, U = 4, hyb = [Some 0, Some \<i>]\<rparr> [Some 1, Some 2] = Inr se
       \<and> sc_hyb_new \<lparr>t = - 1, beta = 10, U = 4, hyb = [Some 0, Some \<i>]\<rparr> [Some 1, Some 2] [Some 1, Some 2] se
           = Inr [Some 0, Some \<i>]"
  using sc_round_trip [of "\<lparr>t = - 1, beta = 10, U = 4, hyb = [Some 0, Some \<i>]\<rparr>" "[0, \<i>]" "[1, 2]"]
  by auto

lemma hartree_entries:
  assumes "hyb m = map Some ds" and "n < length ds"
    and "iwn_val (beta m) n - ds ! n - complex_of_real (U m / 2) \<noteq> 0"
  shows "G_imp_entry m n = Some (1 / (iwn_val (beta m) n - ds ! n - complex_of_real (U m / 2)))"
    and "self_energy_entry m (map (G_imp_entry m) [0..<length ds]) n
         = Some (complex_of_real (U m / 2))"
proof -
  show G: "G_imp_entry m n = Some (1 / (iwn_val (beta m) n - ds ! n - complex_of_real (U m / 2)))"
    using assms by (simp add: G_imp_entry_def nsub_def ndiv_def lift2_def)
  show "self_energy_entry m (map (G_imp_entry m) [0..<length ds]) n
         = Some (complex_of_real (U m / 2))"
    using assms by (simp add: self_energy_entry_def G nsub_def ndiv_def lift2_def)
qed

text \<open>
  Claim C3. When the Green function is the output of \<open>solve\<close> on the same
  model, the hybridization is finite and no denominator \<open>iwn - ds[n] - U/2\<close> is
  zero, the self-energy that the first loop of \<open>run_selfconsistency\<close> extracts
  is \<open>U/2\<close> at every index.
\<close>

theorem hartree_self_energy_rederived:
  assumes "0 < beta m" and "hyb m = map Some ds"
    and "\<forall>n<length ds. iwn_val (beta m) n - ds ! n - complex_of_real (U m / 2) \<noteq> 0"
  shows "\<exists>G. solve m = Inr G
           \<and> sc_self_energy m G = Inr (replicate (length ds) (Some (complex_of_real (U m / 2))))"
proof -
  let ?G = "map (G_imp_entry m) [0..<length ds]"
  have "solve m = Inr ?G"
    using assms(1,2) solve_closed [of m] by simp
  moreover have "sc_self_energy m ?G = Inr (map (self_energy_entry m ?G) [0..<length ds])"
    using assms(1,2) sc_self_energy_closed [of m ?G] by simp
  moreover have "map (self_energy_entry m ?G) [0..<length ds]
                 = replicate (length ds) (Some (complex_of_real (U m / 2)))"
    using assms(2,3) by (intro nth_equalityI) (simp_all add: hartree_entries(2))
  ultimately show ?thesis
    by simp
qed

lemma iwn_val_minus_real_nonzero:
  assumes "b \<noteq> 0" and "Im d = 0"
  shows "iwn_val b n - d - complex_of_real u \<noteq> 0"
proof
  assume "iwn_val b n - d - complex_of_real u = 0"
  then have "Im (iwn_val b n - d - complex_of_real u) = 0"
    by simp
  then have "Im (iwn_val b n) = 0"
    using assms(2) by simp
  then have "iwn_val b n = 0"
    by (simp add: complex_eq_iff Re_iwn_val)
  then show False
    using iwn_val_nonzero [OF assms(1)] by simp
qed

theorem hartree_self_energy_rederived_witness:
  "\<exists>G. solve \<lparr>t = - 1, beta = 10, U = 4, hyb = [Some 0, Some 1]\<rparr> = Inr G
       \<and> sc_self_energy \<lparr>t = - 1, beta = 10, U = 4, hyb = [Some 0, Some 1]\<rparr> G
           = Inr [Some 2, Some 2]"
proof -
  have "\<forall>n<length [0, 1 :: complex]. iwn_val 10 n - [0, 1] ! n - complex_of_real (4 / 2) \<noteq> 0"
    by (intro allI impI iwn_val_minus_real_nonzero) (simp_all add: nth_Cons split: nat.splits)
  then show ?thesis
    using hartree_self_energy_rederived
      [of "\<lparr>t = - 1, beta = 10, U = 4, hyb = [Some 0, Some 1]\<rparr>" "[0, 1]"]
    by (simp add: numeral_2_eq_2)
qed

section \<open>The driver\<close>

text \<open>
  Claim C5. For \<open>beta > 0\<close> the driver starts from the zero hybridization of
  length \<open>N\<close>, makes exactly \<open>iter_max\<close> passes, each of which builds the model
  with the hybridization of the pass before, calls \<open>solve\<close> and then
  \<open>run_selfconsistency\<close>, and returns the frequencies \<open>(2n+1) pi / beta\<close> for
  \<open>n < N\<close> together with the hybridization after the last pass, both of length
  \<open>N\<close>. \<open>main\<close> is the driver with 200 frequencies and 20 passes.
\<close>

theorem main_with_result:
  assumes "0 < b"
  shows "\<exists>Delta. Delta 0 = np_zeros N
           \<and> (\<forall>k<iter_max. \<exists>G. solve \<lparr>t = t0, beta = b, U = u, hyb = Delta k\<rparr> = Inr G
                   \<and> run_selfconsistency Q \<lparr>t = t0, beta = b, U = u, hyb = Delta k\<rparr> G
                       = Inr (Delta (Suc k)))
           \<and> main_with Q N t0 b u iter_max
               = Inr (map (\<lambda>n. (2 * real n + 1) * pi / b) [0..<N], Delta iter_max)
           \<and> length (map (\<lambda>n. (2 * real n + 1) * pi / b) [0..<N]) = N
           \<and> length (Delta iter_max) = N
           \<and> main Q = main_with Q 200 (- 1) 10 4 20"
proof -
  let ?D = "\<lambda>k. (dmft_step Q t0 b u ^^ k) (np_zeros N)"
  have b: "b \<noteq> 0"
    using assms by simp
  have step: "\<exists>G. solve \<lparr>t = t0, beta = b, U = u, hyb = ?D k\<rparr> = Inr G
                \<and> run_selfconsistency Q \<lparr>t = t0, beta = b, U = u, hyb = ?D k\<rparr> G
                    = Inr (?D (Suc k))" for k
  proof -
    let ?m = "\<lparr>t = t0, beta = b, U = u, hyb = ?D k\<rparr>"
    let ?G = "map (G_imp_entry ?m) [0..<length (?D k)]"
    have "solve ?m = Inr ?G"
      using b solve_closed [of ?m] by simp
    moreover have "run_selfconsistency Q ?m ?G = Inr (sc_closed Q ?m ?G)"
      using b by (intro run_selfconsistency_closed) simp_all
    moreover have "sc_closed Q ?m ?G = ?D (Suc k)"
      by (simp add: dmft_step_def Let_def)
    ultimately show ?thesis
      by simp
  qed
  have "main_with Q N t0 b u iter_max
          = Inr (map (\<lambda>n. (2 * real n + 1) * pi / b) [0..<N], ?D iter_max)"
    using b by (rule main_with_closed)
  moreover have "?D 0 = np_zeros N"
    by simp
  moreover have "length (?D iter_max) = N"
    by simp
  ultimately show ?thesis
    using step by (intro exI [of _ ?D] conjI allI impI) (simp_all add: main_def)
qed

theorem main_with_result_witness:
  "\<exists>Delta :: nat \<Rightarrow> cnum list. Delta 0 = np_zeros 200
     \<and> main midpoint_rule = Inr (map (\<lambda>n. (2 * real n + 1) * pi / 10) [0..<200], Delta 20)
     \<and> length (Delta 20) = 200"
proof -
  have pos: "0 < (10 :: real)"
    by simp
  obtain Delta :: "nat \<Rightarrow> cnum list" where "Delta 0 = np_zeros 200"
    and "main_with midpoint_rule 200 (- 1) 10 4 20
           = Inr (map (\<lambda>n. (2 * real n + 1) * pi / 10) [0..<200], Delta 20)"
    and "length (Delta 20) = 200"
    and "main midpoint_rule = main_with midpoint_rule 200 (- 1) 10 4 20"
    using main_with_result [OF pos, of 200 20 "- 1" 4 midpoint_rule] by blast
  then show ?thesis
    by (intro exI [of _ Delta]) simp
qed

text \<open>
  Claim C6. For a model with \<open>beta > 0\<close> whose hybridization has length \<open>N\<close>,
  \<open>solve\<close> returns an array of length \<open>N\<close>, \<open>run_selfconsistency\<close> returns a
  hybridization of length \<open>N\<close> for every Green function of length \<open>N\<close>, and
  after any number of passes of the driver loop the hybridization has length \<open>N\<close>.
\<close>

theorem length_invariant:
  assumes "0 < beta m" and "length (hyb m) = N"
  shows "(\<exists>G. solve m = Inr G \<and> length G = N)
         \<and> (\<forall>G. length G = N \<longrightarrow> (\<exists>h. run_selfconsistency Q m G = Inr h \<and> length h = N))
         \<and> (\<forall>k. \<exists>h. for_loop [0..<k] (main_body Q (t m) (beta m) (U m)) (hyb m) = Inr h
                    \<and> length h = N)"
proof (intro conjI allI impI)
  have b: "beta m \<noteq> 0"
    using assms(1) by simp
  show "\<exists>G. solve m = Inr G \<and> length G = N"
    using assms(2) solve_closed [OF b] by simp
  show "\<exists>h. run_selfconsistency Q m G = Inr h \<and> length h = N" if "length G = N" for G
    using that assms(2) run_selfconsistency_closed [OF b, of G Q] by simp
  show "\<exists>h. for_loop [0..<k] (main_body Q (t m) (beta m) (U m)) (hyb m) = Inr h \<and> length h = N"
    for k
    using assms(2) main_loop_closed [OF b, of k Q "t m" "U m" "hyb m"] by simp
qed

theorem length_invariant_witness:
  "(\<exists>G. solve \<lparr>t = - 1, beta = 10, U = 4, hyb = np_zeros 3\<rparr> = Inr G \<and> length G = 3)
   \<and> (\<exists>h. run_selfconsistency midpoint_rule \<lparr>t = - 1, beta = 10, U = 4, hyb = np_zeros 3\<rparr>
             [Some 1, Some 2, Some 3] = Inr h \<and> length h = 3)
   \<and> (\<exists>h. for_loop [0..<2] (main_body midpoint_rule (- 1) 10 4) (np_zeros 3) = Inr h
           \<and> length h = 3)"
proof -
  have "0 < beta \<lparr>t = - 1, beta = 10, U = 4, hyb = np_zeros 3\<rparr>"
    and "length (hyb \<lparr>t = - 1, beta = 10, U = 4, hyb = np_zeros 3\<rparr>) = 3"
    by simp_all
  from length_invariant [OF this, of midpoint_rule] show ?thesis
    by (intro conjI) (simp_all del: upt_Suc)
qed

section \<open>The hopping parameter\<close>

lemma solve_ignores_t: "solve (m\<lparr>t := x\<rparr>) = solve m"
proof -
  have "solve_body (m\<lparr>t := x\<rparr>) = solve_body m"
    by (intro ext) (simp add: solve_body_def)
  then show ?thesis
    by (simp add: solve_def)
qed

lemma run_selfconsistency_ignores_t:
  "run_selfconsistency Q (m\<lparr>t := x\<rparr>) G = run_selfconsistency Q m G"
proof -
  have "sc_self_energy_body (m\<lparr>t := x\<rparr>) = sc_self_energy_body m"
    by (intro ext) (simp add: sc_self_energy_body_def)
  moreover have "green_lattice_scalar (m\<lparr>t := x\<rparr>) = green_lattice_scalar m"
    by (intro ext) (simp add: green_lattice_scalar_def Model_eps_k_def)
  then have "sc_green_body Q (m\<lparr>t := x\<rparr>) = sc_green_body Q m"
    by (intro ext) (simp add: sc_green_body_def green_lattice_scalar_real_def
        green_lattice_scalar_imag_def)
  moreover have "sc_hyb_body (m\<lparr>t := x\<rparr>) = sc_hyb_body m"
    by (intro ext) (simp add: sc_hyb_body_def)
  ultimately show ?thesis
    by (simp add: run_selfconsistency_def sc_self_energy_def sc_green_impurity_new_def
        sc_hyb_new_def)
qed

lemma main_body_ignores_t: "main_body Q t1 b u = main_body Q t2 b u"
proof (intro ext)
  fix ii h
  let ?m = "\<lparr>t = t2, beta = b, U = u, hyb = h\<rparr>"
  have m: "\<lparr>t = t1, beta = b, U = u, hyb = h\<rparr> = ?m\<lparr>t := t1\<rparr>"
    by simp
  have "solve \<lparr>t = t1, beta = b, U = u, hyb = h\<rparr> = solve ?m"
    unfolding m by (rule solve_ignores_t)
  moreover have "run_selfconsistency Q \<lparr>t = t1, beta = b, U = u, hyb = h\<rparr>
                 = run_selfconsistency Q ?m"
    unfolding m by (intro ext run_selfconsistency_ignores_t)
  ultimately show "main_body Q t1 b u ii h = main_body Q t2 b u ii h"
    by (simp add: main_body_def Let_def)
qed

text \<open>
  Claim C10. The field \<open>t\<close> of the model is not read: the driver returns the
  same result for any two values of the hopping, \<open>solve\<close> and
  \<open>run_selfconsistency\<close> do not change when \<open>t\<close> is changed, and the method
  \<open>Model.eps_k\<close> has the coefficient \<open>-2\<close> whatever \<open>t\<close> is.
\<close>

theorem hopping_unused:
  "main_with Q N t1 b u iter_max = main_with Q N t2 b u iter_max
   \<and> solve (m\<lparr>t := t1\<rparr>) = solve m
   \<and> run_selfconsistency Q (m\<lparr>t := t1\<rparr>) G = run_selfconsistency Q m G
   \<and> Model_eps_k (m\<lparr>t := t1\<rparr>) kx ky = - 2 * (cos kx + cos ky)"
  by (simp add: main_with_def main_body_ignores_t [of Q t1 b u t2] solve_ignores_t
      run_selfconsistency_ignores_t Model_eps_k_def)

section \<open>The first moment under exact integration\<close>

lemma integral_is_unique:
  assumes "integral_is f a b v" and "integral_is f a b w"
  shows "v = w"
proof -
  obtain F G where F: "antiderivative F f" "v = F b - F a"
    and G: "antiderivative G f" "w = G b - G a"
    using assms unfolding integral_is_def by blast
  have "\<forall>x. ((\<lambda>x. F x - G x) has_real_derivative 0) (at x)"
  proof
    fix x
    have "((\<lambda>x. F x - G x) has_real_derivative f x - f x) (at x)"
      using F(1) G(1) unfolding antiderivative_def by (intro DERIV_diff) blast+
    then show "((\<lambda>x. F x - G x) has_real_derivative 0) (at x)" by simp
  qed
  then have "F b - G b = F a - G a"
    by (rule DERIV_isconst_all)
  then show ?thesis
    using F(2) G(2) by simp
qed

lemma double_integral_is_unique:
  assumes "double_integral_is f a b g h v" and "double_integral_is f a b g h w"
  shows "v = w"
proof -
  obtain i1 i2 where i1: "\<forall>x. integral_is (\<lambda>y. f y x) (g x) (h x) (i1 x)" "integral_is i1 a b v"
    and i2: "\<forall>x. integral_is (\<lambda>y. f y x) (g x) (h x) (i2 x)" "integral_is i2 a b w"
    using assms unfolding double_integral_is_def by blast
  have "i1 = i2"
    using i1(1) i2(1) by (auto intro: integral_is_unique)
  then show ?thesis
    using i1(2) i2(2) by (auto intro: integral_is_unique)
qed

lemma inner_eps_k:
  "integral_is (\<lambda>y. eps_k y x) (- pi) pi (- 4 * pi * cos x)"
  unfolding integral_is_def antiderivative_def
proof (intro exI conjI allI)
  fix y
  show "((\<lambda>y. - 2 * (sin y + y * cos x)) has_real_derivative eps_k y x) (at y)"
    unfolding eps_k_def by (auto intro!: derivative_eq_intros)
  show "- 4 * pi * cos x = - 2 * (sin pi + pi * cos x) - - 2 * (sin (- pi) + - pi * cos x)"
    by simp
qed

lemma outer_eps_k:
  "integral_is (\<lambda>x. - 4 * pi * cos x) (- pi) pi 0"
  unfolding integral_is_def antiderivative_def
proof (intro exI conjI allI)
  fix x
  show "((\<lambda>x. - 4 * pi * sin x) has_real_derivative - 4 * pi * cos x) (at x)"
    by (auto intro!: derivative_eq_intros)
  show "0 = - 4 * pi * sin pi - - 4 * pi * sin (- pi)"
    by simp
qed

lemma double_eps_k: "double_integral_is eps_k (- pi) pi (\<lambda>x. - pi) (\<lambda>x. pi) 0"
  unfolding double_integral_is_def
  by (rule exI [where x = "\<lambda>x. - 4 * pi * cos x"]) (intro conjI allI inner_eps_k outer_eps_k)

lemma deriv_cos_sq:
  "((\<lambda>y. y / 2 + sin y * cos y / 2) has_real_derivative (cos y)\<^sup>2) (at y)"
proof -
  have ss: "sin y * sin y = 1 - cos y * cos y"
    using sin_squared_eq [of y] by (simp add: power2_eq_square)
  have "((\<lambda>y. y / 2 + sin y * cos y / 2)
          has_real_derivative 1 / 2 + (sin y * (- sin y) + cos y * cos y) / 2) (at y)"
    by (auto intro!: derivative_eq_intros)
  moreover have "1 / 2 + (sin y * (- sin y) + cos y * cos y) / 2 = (cos y)\<^sup>2"
    by (simp add: ss power2_eq_square field_simps)
  ultimately show ?thesis
    by simp
qed

lemma inner_eps_k_sq:
  "integral_is (\<lambda>y. eps_k y x * eps_k y x) (- pi) pi (4 * pi + 8 * pi * (cos x)\<^sup>2)"
  unfolding integral_is_def antiderivative_def
proof (intro exI conjI allI)
  fix y
  have "((\<lambda>y. 4 * ((y / 2 + sin y * cos y / 2) + 2 * cos x * sin y + y * (cos x)\<^sup>2))
          has_real_derivative 4 * ((cos y)\<^sup>2 + 2 * cos x * cos y + 1 * (cos x)\<^sup>2)) (at y)"
    by (intro DERIV_cmult DERIV_add deriv_cos_sq DERIV_cmult_right DERIV_ident DERIV_sin
          DERIV_cmult)
  moreover have "4 * ((cos y)\<^sup>2 + 2 * cos x * cos y + 1 * (cos x)\<^sup>2) = eps_k y x * eps_k y x"
    by (simp add: eps_k_def power2_eq_square algebra_simps)
  ultimately show "((\<lambda>y. 4 * ((y / 2 + sin y * cos y / 2) + 2 * cos x * sin y + y * (cos x)\<^sup>2))
          has_real_derivative eps_k y x * eps_k y x) (at y)"
    by simp
  show "4 * pi + 8 * pi * (cos x)\<^sup>2
        = 4 * ((pi / 2 + sin pi * cos pi / 2) + 2 * cos x * sin pi + pi * (cos x)\<^sup>2)
          - 4 * ((- pi / 2 + sin (- pi) * cos (- pi) / 2) + 2 * cos x * sin (- pi) + - pi * (cos x)\<^sup>2)"
    by simp
qed

lemma outer_eps_k_sq:
  "integral_is (\<lambda>x. 4 * pi + 8 * pi * (cos x)\<^sup>2) (- pi) pi (16 * pi\<^sup>2)"
  unfolding integral_is_def antiderivative_def
proof (intro exI conjI allI)
  fix x
  have "((\<lambda>x. 4 * pi * x + 8 * pi * (x / 2 + sin x * cos x / 2))
          has_real_derivative 4 * pi * 1 + 8 * pi * (cos x)\<^sup>2) (at x)"
    by (intro DERIV_cmult DERIV_add deriv_cos_sq DERIV_ident)
  then show "((\<lambda>x. 4 * pi * x + 8 * pi * (x / 2 + sin x * cos x / 2))
          has_real_derivative 4 * pi + 8 * pi * (cos x)\<^sup>2) (at x)"
    by simp
  show "16 * pi\<^sup>2 = 4 * pi * pi + 8 * pi * (pi / 2 + sin pi * cos pi / 2)
          - (4 * pi * - pi + 8 * pi * (- pi / 2 + sin (- pi) * cos (- pi) / 2))"
    by (simp add: power2_eq_square)
qed

lemma double_eps_k_sq:
  "double_integral_is (\<lambda>kx ky. eps_k kx ky * eps_k kx ky) (- pi) pi (\<lambda>x. - pi) (\<lambda>x. pi) (16 * pi\<^sup>2)"
  unfolding double_integral_is_def
  by (rule exI [where x = "\<lambda>x. 4 * pi + 8 * pi * (cos x)\<^sup>2"])
     (intro conjI allI inner_eps_k_sq outer_eps_k_sq)


lemma exact_newton_quadrature: "exact_quadrature newton_quadrature"
  unfolding exact_quadrature_def
proof (intro allI impI)
  fix f a b g h v
  assume v: "double_integral_is f a b g h v"
  then have "(THE w. double_integral_is f a b g h w) = v"
    by (intro the_equality) (auto intro: double_integral_is_unique)
  then show "fst (newton_quadrature (\<lambda>y x. Some (f y x)) a b g h) = Some v"
    using v by (auto simp: newton_quadrature_def)
qed

lemma bz_integral_exact:
  assumes "exact_quadrature Q"
    and "double_integral_is f (- pi) pi (\<lambda>x. - pi) (\<lambda>x. pi) v"
  shows "bz_integral Q (\<lambda>kx ky. Some (f kx ky)) = Some v"
  using assms by (simp add: bz_integral_def exact_quadrature_def)

lemma bz_integral_eps_k:
  assumes "exact_quadrature Q"
  shows "bz_integral Q (\<lambda>kx ky. Some (eps_k kx ky)) = Some 0"
  using assms double_eps_k by (rule bz_integral_exact)

lemma bz_integral_eps_k_sq:
  assumes "exact_quadrature Q"
  shows "bz_integral Q (\<lambda>kx ky. Some (eps_k kx ky * eps_k kx ky)) = Some (16 * pi\<^sup>2)"
  using assms double_eps_k_sq by (rule bz_integral_exact)

text \<open>
  Under exact integration the integral of \<open>eps_k\<close> is 0 and that of its square
  is \<open>16 pi^2\<close>, so that \<open>get_hyb_fm\<close> returns 4, the value of the moment
  formula; \<open>newton_quadrature\<close> is such a quadrature.
\<close>

lemma get_hyb_fm_exact:
  assumes "exact_quadrature Q"
  shows "get_hyb_fm Q = Some 4 \<and> spec_first_moment Q = Some 4"
proof -
  have norm: "(2 * pi) powr 2 = (2 * pi)\<^sup>2"
    by (simp add: powr_numeral)
  have val: "1 / (2 * pi)\<^sup>2 * (16 * pi\<^sup>2) = 4"
    by (simp add: power2_eq_square)
  have "get_hyb_fm Q = Some 4"
    using bz_integral_eps_k [OF assms] bz_integral_eps_k_sq [OF assms] val
    by (simp add: get_hyb_fm_def Let_def norm nmul_def nsub_def lift2_def)
  moreover have "spec_first_moment Q = Some 4"
    using bz_integral_eps_k [OF assms] bz_integral_eps_k_sq [OF assms] val
    by (simp add: spec_first_moment_def Let_def nmul_def nsub_def lift2_def
        power2_eq_square [of "eps_k _ _"])
  ultimately show ?thesis
    by simp
qed

lemma get_hyb_fm_exact_newton:
  "get_hyb_fm newton_quadrature = Some 4 \<and> spec_first_moment newton_quadrature = Some 4"
  using get_hyb_fm_exact [OF exact_newton_quadrature] .





section \<open>Divisions by zero\<close>

lemma G_imp_entry_singular:
  "hyb m ! n = Some d \<Longrightarrow> iwn_val (beta m) n - d - complex_of_real (U m / 2) = 0
     \<Longrightarrow> G_imp_entry m n = None"
  by (simp add: G_imp_entry_def ndiv_def nsub_def lift2_def)

lemma hyb_new_entry_singular:
  "Gnew ! n = Some 0 \<Longrightarrow> hyb_new_entry m Gnew se n = None"
  by (simp add: hyb_new_entry_def ndiv_def nsub_def lift2_def)

text \<open>
  Claim C9, as amended. For every model with a nonzero \<open>beta\<close>, also where a
  denominator \<open>iwn - hyb[n] - U/2\<close> is zero, \<open>solve\<close> raises nothing and
  returns an array of the length of the hybridization, whose entry at a zero
  denominator is not finite. The hybridization update (the third loop of
  \<open>run_selfconsistency\<close>) raises nothing on arrays of one length, and its
  entry is not finite where the new Green function is zero and the self-energy
  is finite. \<open>run_selfconsistency\<close> as a whole raises nothing on a Green
  function that is not longer than the hybridization.
\<close>

theorem singular_division_propagates:
  assumes "beta m \<noteq> 0"
  shows "(\<exists>G. solve m = Inr G \<and> length G = length (hyb m)
            \<and> (\<forall>n<length (hyb m). \<forall>d. hyb m ! n = Some d
                   \<and> iwn_val (beta m) n - d - complex_of_real (U m / 2) = 0 \<longrightarrow> G ! n = None))
         \<and> (\<forall>G Gnew se. length Gnew = length G \<and> length se = length G \<longrightarrow>
               (\<exists>h. sc_hyb_new m G Gnew se = Inr h \<and> length h = length G
                  \<and> (\<forall>n<length G. \<forall>s. Gnew ! n = Some 0 \<and> se ! n = Some s
                        \<longrightarrow> h ! n = None)))
         \<and> (\<forall>G. length G \<le> length (hyb m) \<longrightarrow>
               (\<exists>h. run_selfconsistency Q m G = Inr h \<and> length h = length G))"
proof (intro conjI allI impI)
  show "\<exists>G. solve m = Inr G \<and> length G = length (hyb m)
            \<and> (\<forall>n<length (hyb m). \<forall>d. hyb m ! n = Some d
                   \<and> iwn_val (beta m) n - d - complex_of_real (U m / 2) = 0 \<longrightarrow> G ! n = None)"
    using solve_closed [OF assms] by (auto simp: G_imp_entry_singular)
next
  fix G Gnew se :: "cnum list"
  assume len: "length Gnew = length G \<and> length se = length G"
  then have "sc_hyb_new m G Gnew se = Inr (map (hyb_new_entry m Gnew se) [0..<length G])"
    using assms by (intro sc_hyb_new_closed) simp_all
  then show "\<exists>h. sc_hyb_new m G Gnew se = Inr h \<and> length h = length G
                  \<and> (\<forall>n<length G. \<forall>s. Gnew ! n = Some 0 \<and> se ! n = Some s
                        \<longrightarrow> h ! n = None)"
    by (auto simp: hyb_new_entry_singular)
next
  fix G :: "cnum list"
  assume "length G \<le> length (hyb m)"
  then show "\<exists>h. run_selfconsistency Q m G = Inr h \<and> length h = length G"
    using run_selfconsistency_closed [OF assms, of G Q] by simp
qed

theorem singular_division_propagates_witness:
  "solve \<lparr>t = - 1, beta = 10, U = 4, hyb = [Some (iwn_val 10 0 - 2)]\<rparr> = Inr [None]
   \<and> sc_hyb_new \<lparr>t = - 1, beta = 10, U = 4, hyb = [Some (iwn_val 10 0 - 2)]\<rparr>
        [Some 1] [Some 0] [Some 0] = Inr [None]
   \<and> (\<exists>h. run_selfconsistency midpoint_rule
             \<lparr>t = - 1, beta = 10, U = 4, hyb = [Some (iwn_val 10 0 - 2)]\<rparr> [Some 1] = Inr h
          \<and> length h = 1)"
proof -
  let ?m = "\<lparr>t = - 1, beta = 10, U = 4, hyb = [Some (iwn_val 10 0 - 2)]\<rparr>"
  have one: "xs = [None]" if "length xs = 1" and "xs ! 0 = None" for xs :: "cnum list"
    using that by (cases xs) simp_all
  have b: "beta ?m \<noteq> 0"
    by simp
  note th = singular_division_propagates [OF b, of midpoint_rule]
  obtain G where G: "solve ?m = Inr G" "length G = 1" "G ! 0 = None"
    using th by auto
  obtain h where h: "sc_hyb_new ?m [Some 1] [Some 0] [Some 0] = Inr h" "length h = 1" "h ! 0 = None"
    using th [THEN conjunct2, THEN conjunct1, rule_format, of "[Some 0]" "[Some 1]" "[Some 0]"]
    by auto
  have r: "\<exists>h. run_selfconsistency midpoint_rule ?m [Some 1] = Inr h \<and> length h = 1"
    using th [THEN conjunct2, THEN conjunct2, rule_format, of "[Some 1]"] by simp
  show ?thesis
    using G h r one [of G] one [of h] by simp
qed

text \<open>
  Claim C9 as stated, for every input, fails: with \<open>beta = 0\<close> the division
  in \<open>iwn\<close> is a division of Python scalars, and both \<open>solve\<close> and the
  hybridization update raise \<open>ZeroDivisionError\<close> at the first index.
\<close>

theorem solve_raises_at_zero_beta:
  "solve \<lparr>t = - 1, beta = 0, U = 4, hyb = [Some 0]\<rparr> = Inl ZeroDivisionError
   \<and> sc_hyb_new \<lparr>t = - 1, beta = 0, U = 4, hyb = [Some 0]\<rparr> [Some 1] [Some 1] [Some 0]
       = Inl ZeroDivisionError"
  by (simp add: solve_def solve_body_def sc_hyb_new_def sc_hyb_body_def iwn_def)

section \<open>Properties of the dispersion\<close>

text \<open>
  Claim C8. The dispersion \<open>eps_k(kx, ky) = -2 (cos kx + cos ky)\<close> is unchanged
  when both momenta change sign and when they are exchanged; at the origin it is
  \<open>-4 |t|\<close> for the hopping \<open>t = -1\<close> of the docstring, and at \<open>(pi, 0)\<close> it is 0.
\<close>

theorem eps_k_symmetry:
  "eps_k kx ky = - 2 * (cos kx + cos ky)
   \<and> eps_k kx ky = eps_k (- kx) (- ky)
   \<and> eps_k kx ky = eps_k ky kx
   \<and> eps_k 0 0 = - 4 * \<bar>- 1\<bar>
   \<and> eps_k pi 0 = 0"
  by (simp add: eps_k_def add.commute)

end
